theory Spec2Isabelle
  imports Main
begin

section \<open>JavaScript values\<close>

text \<open>
  The explore page handles untyped JSON (\<open>JsonObject\<close>, rejection values of type
  \<open>any\<close>), so its data is modelled by a datatype of JavaScript values. Numbers are
  the integers (ids and counts are all the program reads). \<open>JErr m\<close> is the object
  \<open>new Error(m)\<close>. An object is the list of its bindings; the first binding of a key
  is the current one, so the order of keys is not observable through a property read.
\<close>

datatype jsval =
    JUndefined
  | JNull
  | JBool bool
  | JNum int
  | JStr string
  | JArr "jsval list"
  | JObj "(string \<times> jsval) list"
  | JErr string

type_synonym bindings = "(string \<times> jsval) list"

text \<open>ToBoolean, as \<open>if (v)\<close>, \<open>!v\<close>, \<open>a && b\<close> and \<open>a || b\<close> use it.\<close>

fun truthy :: "jsval \<Rightarrow> bool" where
  "truthy JUndefined = False"
| "truthy JNull = False"
| "truthy (JBool b) = b"
| "truthy (JNum n) = (n \<noteq> 0)"
| "truthy (JStr s) = (s \<noteq> [])"
| "truthy (JArr xs) = True"
| "truthy (JObj kvs) = True"
| "truthy (JErr m) = True"

fun nullish :: "jsval \<Rightarrow> bool" where
  "nullish JUndefined = True"
| "nullish JNull = True"
| "nullish v = False"

definition js_and :: "jsval \<Rightarrow> jsval \<Rightarrow> jsval" where
  "js_and a b = (if truthy a then b else a)"

definition js_or :: "jsval \<Rightarrow> jsval \<Rightarrow> jsval" where
  "js_or a b = (if truthy a then a else b)"

text \<open>Decimal numerals: the names of the index properties of arrays and strings.\<close>

function dec :: "nat \<Rightarrow> string" where
  "dec n = (if n < 10 then [''0123456789'' ! n] else dec (n div 10) @ [''0123456789'' ! (n mod 10)])"
  by pat_completeness auto
termination
  by (relation "measure id") auto

declare dec.simps [simp del]

text \<open>
  The own enumerable properties of a value, which an object spread \<open>{...v}\<close> and an
  object rest pattern copy: the bindings of an object, the elements of an array and the
  characters of a string under their indices, nothing for the other values
  (\<open>null\<close> and \<open>undefined\<close> included, whose spread is empty).
\<close>

fun own_props :: "jsval \<Rightarrow> bindings" where
  "own_props (JObj kvs) = kvs"
| "own_props (JArr xs) = zip (map dec [0..<length xs]) xs"
| "own_props (JStr s) = zip (map dec [0..<length s]) (map (\<lambda>c. JStr [c]) s)"
| "own_props v = []"

text \<open>
  A property read \<open>v?.k\<close>: \<open>undefined\<close> on \<open>null\<close> and \<open>undefined\<close>. On every
  other value it is also the plain read \<open>v.k\<close>. Besides the own properties the model
  has \<open>length\<close> of strings and arrays and \<open>message\<close> of an Error.
\<close>

definition get :: "jsval \<Rightarrow> string \<Rightarrow> jsval" where
  "get v k =
    (case map_of (own_props v) k of
       Some x \<Rightarrow> x
     | None \<Rightarrow>
        (case v of
           JErr m \<Rightarrow> if k = ''message'' then JStr m else JUndefined
         | JStr s \<Rightarrow> if k = ''length'' then JNum (int (length s)) else JUndefined
         | JArr xs \<Rightarrow> if k = ''length'' then JNum (int (length xs)) else JUndefined
         | _ \<Rightarrow> JUndefined))"

text \<open>\<open>o.k = v\<close> on the bindings of \<open>o\<close>, and the object literal \<open>{...a, ...b}\<close>:
  later bindings shadow earlier ones.\<close>

definition obj_set :: "bindings \<Rightarrow> string \<Rightarrow> jsval \<Rightarrow> bindings" where
  "obj_set kvs k v = (k, v) # kvs"

definition spread :: "jsval \<Rightarrow> jsval \<Rightarrow> bindings" where
  "spread a b = own_props b @ own_props a"

text \<open>\<open>isDefined\<close> of @superset-ui/core: neither \<open>null\<close> nor \<open>undefined\<close>.\<close>

definition isDefined :: "jsval \<Rightarrow> bool" where
  "isDefined x = (x \<noteq> JNull \<and> x \<noteq> JUndefined)"

section \<open>Promises, requests and dispatched actions\<close>

text \<open>A settled promise: fulfilled with a value or rejected with a reason.\<close>

datatype ('a, 'e) settled = Fulfilled 'a | Rejected 'e

text \<open>
  What a request of the client library (\<open>makeApi\<close>) is rejected with: the library's
  error object (a \<open>SupersetApiError\<close> or the \<open>Response\<close>, given by its bindings) or
  an \<open>Error\<close>. Either is an object.
\<close>

datatype failure = ErrorObject "(string \<times> jsval) list" | ErrorInstance string

fun thrown :: "failure \<Rightarrow> jsval" where
  "thrown (ErrorObject kvs) = JObj kvs"
| "thrown (ErrorInstance m) = JErr m"

datatype request = Request (verb: string) (endpoint: string) (query: "(string \<times> string) list")

datatype action = AddDangerToast jsval | HydrateExplore jsval

text \<open>
  What the page can change: the module-level object \<open>fallbackExploreInitialData\<close>
  (its bindings), the actions dispatched to the store and the requests sent, both oldest
  first, the \<open>isLoaded\<close> state and the \<open>isExploreInitialized\<close> ref.
\<close>

record world =
  fallbackExploreInitialData :: bindings
  actions :: "action list"
  requests :: "request list"
  isLoaded :: bool
  isExploreInitialized :: bool

text \<open>
  Functions of other modules, taken as parameters: the translation \<open>t\<close>, the string
  conversion of a template literal, \<open>getClientErrorObject\<close> and
  \<open>getFormDataWithDashboardContext\<close>. They are total functions here: the promise of
  \<open>getClientErrorObject\<close> is taken to resolve, with the value given, and
  \<open>getFormDataWithDashboardContext\<close> to return.
\<close>

record externals =
  tr :: "string \<Rightarrow> string"
  to_string :: "jsval \<Rightarrow> string"
  getClientErrorObject :: "jsval \<Rightarrow> jsval"
  getFormDataWithDashboardContext :: "jsval \<Rightarrow> jsval \<Rightarrow> jsval \<Rightarrow> jsval"

type_synonym network = "request \<Rightarrow> (jsval, failure) settled"

type_synonym promise = "(jsval, jsval) settled \<times> world"

definition dispatch :: "action \<Rightarrow> world \<Rightarrow> world" where
  "dispatch a w = w\<lparr>actions := actions w @ [a]\<rparr>"

text \<open>\<open>makeApi({method, endpoint})(payload)\<close>: sends the request; the server's answer
  is what the network gives for it.\<close>

definition makeApi :: "network \<Rightarrow> request \<Rightarrow> world \<Rightarrow> promise" where
  "makeApi net rq w =
    (case net rq of Fulfilled v \<Rightarrow> Fulfilled v | Rejected f \<Rightarrow> Rejected (thrown f),
     w\<lparr>requests := requests w @ [rq]\<rparr>)"

definition then_p :: "promise \<Rightarrow> (jsval \<Rightarrow> world \<Rightarrow> promise) \<Rightarrow> promise" where
  "then_p p f = (case p of (Fulfilled v, w) \<Rightarrow> f v w | (Rejected e, w) \<Rightarrow> (Rejected e, w))"

definition catch_p :: "promise \<Rightarrow> (jsval \<Rightarrow> world \<Rightarrow> promise) \<Rightarrow> promise" where
  "catch_p p f = (case p of (Fulfilled v, w) \<Rightarrow> (Fulfilled v, w) | (Rejected e, w) \<Rightarrow> f e w)"

definition finally_p :: "promise \<Rightarrow> (world \<Rightarrow> world) \<Rightarrow> promise" where
  "finally_p p f = (case p of (r, w) \<Rightarrow> (r, f w))"

definition TypeError :: jsval where
  "TypeError = JErr ''TypeError''"

section \<open>pages/Chart/index.tsx: fetchExploreData and ExplorePage\<close>

definition isValidResult :: "jsval \<Rightarrow> bool" where
  "isValidResult rv =
    truthy (js_and (get (get rv ''result'') ''form_data'') (get (get rv ''result'') ''dataset''))"

definition hasDatasetId :: "jsval \<Rightarrow> bool" where
  "hasDatasetId rv = isDefined (get (get (get rv ''result'') ''dataset'') ''id'')"

definition explore_request :: "(string \<times> string) list \<Rightarrow> request" where
  "explore_request exploreUrlParams = Request ''GET'' ''api/v1/explore/'' exploreUrlParams"

definition chart_request :: "string \<Rightarrow> request" where
  "chart_request chartId = Request ''GET'' (''api/v1/chart/'' @ chartId) []"

text \<open>The statements of \<open>fetchExploreData\<close> after the \<open>await\<close>, on the response \<open>rv\<close>.\<close>

definition fetched :: "externals \<Rightarrow> jsval \<Rightarrow> world \<Rightarrow> promise" where
  "fetched E rv w =
    (if isValidResult rv \<and> hasDatasetId rv then (Fulfilled rv, w)
     else
       let w1 =
             (if isValidResult rv then
                let fb1 = obj_set (fallbackExploreInitialData w) ''form_data''
                            (JObj (spread (get (get rv ''result'') ''form_data'')
                                          (get (JObj (fallbackExploreInitialData w)) ''form_data'')));
                    fb2 = (if truthy (get (get rv ''result'') ''slice'')
                           then obj_set fb1 ''slice'' (get (get rv ''result'') ''slice'')
                           else fb1)
                in w\<lparr>fallbackExploreInitialData := fb2\<rparr>
              else w);
           message = tr E ''Failed to load chart data'';
           responseError = get (get rv ''result'') ''message''
       in (Rejected (JErr (if truthy responseError
                           then message @ '':'' @ [CHR 0x0A] @ to_string E responseError
                           else message)), w1))"

definition fetchExploreData ::
  "externals \<Rightarrow> network \<Rightarrow> (string \<times> string) list \<Rightarrow> world \<Rightarrow> promise" where
  "fetchExploreData E net exploreUrlParams w =
    then_p (makeApi net (explore_request exploreUrlParams) w) (fetched E)"

text \<open>
  What the effect of \<open>ExplorePage\<close> reads: the parsed URL parameters, the
  \<open>save_action\<close> URL parameter (a string or \<open>null\<close>) and the form data of the
  dashboard context (an object or \<open>null\<close>).
\<close>

record page_input =
  exploreUrlParams :: "(string \<times> string) list"
  saveAction :: jsval
  dashboardContextFormData :: jsval

text \<open>The first \<open>.then\<close>: \<open>({ result }) => { ... dispatch(hydrateExplore(...)) }\<close>.
  Destructuring \<open>null\<close> or \<open>undefined\<close>, or reading a property of it, throws.\<close>

definition hydrate_fetched :: "externals \<Rightarrow> page_input \<Rightarrow> jsval \<Rightarrow> world \<Rightarrow> promise" where
  "hydrate_fetched E inp rv w =
    (if nullish rv \<or> nullish (get rv ''result'') then (Rejected TypeError, w)
     else
       let result = get rv ''result'';
           formData =
             (if truthy (dashboardContextFormData inp)
              then getFormDataWithDashboardContext E (get result ''form_data'')
                     (dashboardContextFormData inp) (saveAction inp)
              else get result ''form_data'')
       in (Fulfilled JUndefined,
           dispatch (HydrateExplore (JObj
             (obj_set (obj_set (own_props result) ''form_data'' formData)
                ''saveAction'' (saveAction inp)))) w))"

text \<open>The \<open>.catch\<close>: \<open>err => Promise.all([getClientErrorObject(err), err])\<close>.\<close>

definition client_error :: "externals \<Rightarrow> jsval \<Rightarrow> world \<Rightarrow> promise" where
  "client_error E err w = (Fulfilled (JArr [getClientErrorObject E err, err]), w)"

text \<open>\<open>owners?.map(({ id }) => id)\<close>: \<open>None\<close> when it throws (a value with no
  \<open>map\<close> method, or an element that cannot be destructured).\<close>

definition owner_ids :: "jsval \<Rightarrow> jsval option" where
  "owner_ids owners =
    (if nullish owners then Some JUndefined
     else case owners of
       JArr xs \<Rightarrow>
         if list_ex nullish xs then None else Some (JArr (map (\<lambda>x. get x ''id'') xs))
     | _ \<Rightarrow> None)"

text \<open>The \<open>.then\<close> on the chart request:
  \<open>({ result: { id, url, owners, form_data: _, ...data } }) => { ... }\<close>.\<close>

definition hydrate_chart :: "jsval \<Rightarrow> jsval \<Rightarrow> jsval \<Rightarrow> world \<Rightarrow> promise" where
  "hydrate_chart err exploreData rv w =
    (if nullish rv \<or> nullish (get rv ''result'') then (Rejected TypeError, w)
     else
       let result = get rv ''result'';
           data = filter (\<lambda>(k, v). k \<notin> {''id'', ''url'', ''owners'', ''form_data''})
                    (own_props result)
       in case owner_ids (get result ''owners'') of
            None \<Rightarrow> (Rejected TypeError, w)
          | Some ids \<Rightarrow>
              let slice = JObj
                    (obj_set (obj_set (obj_set (obj_set data
                       ''datasource'' (get (get err ''extra'') ''datasource_name''))
                       ''slice_id'' (get result ''id''))
                       ''slice_url'' (get result ''url''))
                       ''owners'' ids)
              in (Fulfilled JUndefined,
                  dispatch (HydrateExplore (JObj (obj_set (own_props exploreData) ''slice'' slice))) w))"

text \<open>The second \<open>.then\<close>: \<open>resolved => { const [clientError, err] = resolved || []; ... }\<close>.
  \<open>resolved\<close> is \<open>undefined\<close> after a successful hydration and the pair of the
  \<open>.catch\<close> after a rejection.\<close>

definition report_error ::
  "externals \<Rightarrow> network \<Rightarrow> page_input \<Rightarrow> jsval \<Rightarrow> world \<Rightarrow> promise" where
  "report_error E net inp resolved w =
    (let pair = js_or resolved (JArr []);
         clientError = get pair ''0'';
         err = get pair ''1''
     in if \<not> truthy err then (Fulfilled JUndefined, w)
        else
          let errorMesage =
                js_or (get clientError ''message'')
                  (js_or (get clientError ''error'') (JStr (tr E ''Failed to load chart data.'')));
              w1 = dispatch (AddDangerToast errorMesage) w
          in if truthy (get (get err ''extra'') ''datasource'') then
               let fb = JObj (fallbackExploreInitialData w1);
                   exploreData = JObj
                     (obj_set (own_props fb) ''dataset''
                        (JObj (obj_set (obj_set (obj_set (own_props (get fb ''dataset''))
                           ''id'' (get (get err ''extra'') ''datasource''))
                           ''name'' (get (get err ''extra'') ''datasource_name''))
                           ''extra'' (JObj [(''error'', err)]))));
                   chartId = map_of (exploreUrlParams inp) ''slice_id''
               in catch_p
                    (then_p
                       (case chartId of
                          None \<Rightarrow> (Rejected JUndefined, w1)
                        | Some c \<Rightarrow>
                            if c \<noteq> [] then makeApi net (chart_request c) w1
                            else (Rejected JUndefined, w1))
                       (hydrate_chart err exploreData))
                    (\<lambda>e w'. (Fulfilled JUndefined, dispatch (HydrateExplore exploreData) w'))
             else
               (Fulfilled JUndefined,
                dispatch (HydrateExplore (JObj (fallbackExploreInitialData w1))) w1))"

text \<open>The \<open>.finally\<close>: \<open>setIsLoaded(true); isExploreInitialized.current = true\<close>.\<close>

definition loaded :: "world \<Rightarrow> world" where
  "loaded w = w\<lparr>isLoaded := True, isExploreInitialized := True\<rparr>"

text \<open>The effect of \<open>ExplorePage\<close>, run to the end of its promise chain. Its last
  statement, which sets the source of the labels colour map, touches nothing of the
  \<open>world\<close> and is left out.\<close>

definition ExplorePage :: "externals \<Rightarrow> network \<Rightarrow> page_input \<Rightarrow> world \<Rightarrow> world" where
  "ExplorePage E net inp w =
    (if \<not> isExploreInitialized w \<or> truthy (saveAction inp) then
       snd (finally_p
              (then_p
                 (catch_p
                    (then_p (fetchExploreData E net (exploreUrlParams inp) w)
                       (hydrate_fetched E inp))
                    (client_error E))
                 (report_error E net inp))
              loaded)
     else w)"

section \<open>AnnotationModal\<close>

text \<open>
  \<open>AnnotationObject\<close>: every field may be absent (\<open>None\<close> is \<open>undefined\<close>), as the
  component reads them with \<open>?.\<close> and builds objects that lack some.
\<close>

record AnnotationObject =
  annotation_id :: "int option"
  short_descr :: "string option"
  start_dttm :: "string option"
  end_dttm :: "string option"
  json_metadata :: "string option"
  long_descr :: "string option"
  created_by :: "jsval option"
  changed_by :: "jsval option"
  changed_on_delta_humanized :: "string option"
  layer :: "jsval option"

record AnnotationModalProps =
  annotationLayerId :: int
  annotation :: "AnnotationObject option"
  onAnnotationAdd :: bool
  show_prop :: bool

text \<open>What the component does to the outside: calls of the resource hook
  (\<open>useSingleViewResource\<close> on \<open>annotation_layer/${annotationLayerId}/annotation\<close>),
  of the callbacks \<open>onAnnotationAdd\<close> and \<open>onHide\<close>, and of \<open>addSuccessToast\<close>.\<close>

datatype modal_effect =
    FetchResource int
  | CreateResource AnnotationObject
  | UpdateResource int AnnotationObject
  | OnAnnotationAdd
  | OnHide
  | AddSuccessToast string

text \<open>The resource the component names to the hook:
  \<open>annotation_layer/${annotationLayerId}/annotation\<close>.\<close>

definition annotation_resource :: "externals \<Rightarrow> AnnotationModalProps \<Rightarrow> string" where
  "annotation_resource E P =
    ''annotation_layer/'' @ to_string E (JNum (annotationLayerId P)) @ ''/annotation''"

definition hook_requests :: "string \<Rightarrow> modal_effect \<Rightarrow> request list" where
  \<comment> \<open>Modelled from the spec: the source of the hook \<open>useSingleViewResource\<close>
      (\<open>src/views/CRUD/hooks\<close>) is missing. The specification lists
      "GET/POST/PUT /api/v1/annotation_layer/{id}/annotation": fetching the resource is
      the GET, creating the POST and updating the PUT, on \<open>/api/v1/\<close> and the resource
      the hook was given. The callbacks and the toast send nothing.\<close>
  "hook_requests res e =
    (case e of
       FetchResource i \<Rightarrow> [Request ''GET'' (''/api/v1/'' @ res) []]
     | CreateResource a \<Rightarrow> [Request ''POST'' (''/api/v1/'' @ res) []]
     | UpdateResource i a \<Rightarrow> [Request ''PUT'' (''/api/v1/'' @ res) []]
     | _ \<Rightarrow> [])"

text \<open>
  The component's state: its two \<open>useState\<close> cells, the hook's \<open>resource\<close> and
  \<open>loading\<close>, the dependencies the validation effect last ran with (\<open>None\<close> before the
  first render), and the effects so far, oldest first.
\<close>

record modal =
  props :: AnnotationModalProps
  disableSave :: bool
  currentAnnotation :: "AnnotationObject option"
  resource :: "AnnotationObject option"
  loading :: bool
  validated :: "(string option \<times> string option \<times> string option) option"
  effects :: "modal_effect list"

datatype string_key =
  Short_descr | Start_dttm | End_dttm | Json_metadata | Long_descr | Changed_on_delta_humanized

definition isEditMode :: "modal \<Rightarrow> bool" where
  "isEditMode m = (annotation (props m) \<noteq> None)"

definition emit :: "modal_effect \<Rightarrow> modal \<Rightarrow> modal" where
  "emit e m = m\<lparr>effects := effects m @ [e]\<rparr>"

definition setCurrentAnnotation :: "AnnotationObject option \<Rightarrow> modal \<Rightarrow> modal" where
  "setCurrentAnnotation a m = m\<lparr>currentAnnotation := a\<rparr>"

definition no_fields :: AnnotationObject where
  "no_fields =
    \<lparr>annotation_id = None, short_descr = None, start_dttm = None, end_dttm = None,
     json_metadata = None, long_descr = None, created_by = None, changed_by = None,
     changed_on_delta_humanized = None, layer = None\<rparr>"

text \<open>\<open>{...currentAnnotation}\<close>: the spread of \<open>null\<close> is empty.\<close>

definition spread_annotation :: "AnnotationObject option \<Rightarrow> AnnotationObject" where
  "spread_annotation ca = (case ca of None \<Rightarrow> no_fields | Some a \<Rightarrow> a)"

definition resetAnnotation :: "modal \<Rightarrow> modal" where
  "resetAnnotation m =
    setCurrentAnnotation
      (Some (no_fields\<lparr>short_descr := Some [], start_dttm := Some [], end_dttm := Some [],
               json_metadata := Some [], long_descr := Some []\<rparr>)) m"

definition hide :: "modal \<Rightarrow> modal" where
  "hide m =
    emit OnHide (if isEditMode m then setCurrentAnnotation (resource m) m else resetAnnotation m)"

text \<open>\<open>onSave\<close>, with the value the promise of \<open>updateResource\<close> or \<open>createResource\<close>
  resolves to (falsy on error). The \<open>delete\<close>s change the state object in place.\<close>

definition saved :: "externals \<Rightarrow> string \<Rightarrow> jsval \<Rightarrow> modal \<Rightarrow> modal" where
  "saved E msg response m =
    (if \<not> truthy response then m
     else emit (AddSuccessToast (tr E msg))
            (hide (if onAnnotationAdd (props m) then emit OnAnnotationAdd m else m)))"

definition onSave :: "externals \<Rightarrow> jsval \<Rightarrow> modal \<Rightarrow> modal" where
  "onSave E response m =
    (if isEditMode m then
       (case currentAnnotation m of
          None \<Rightarrow> m
        | Some a \<Rightarrow>
           (case annotation_id a of
              None \<Rightarrow> m
            | Some update_id \<Rightarrow>
                if update_id = 0 then m
                else
                  let a' = a\<lparr>annotation_id := None, created_by := None, changed_by := None,
                              changed_on_delta_humanized := None, layer := None\<rparr>
                  in saved E ''The annotation has been updated'' response
                       (emit (UpdateResource update_id a') (m\<lparr>currentAnnotation := Some a'\<rparr>))))
     else
       (case currentAnnotation m of
          None \<Rightarrow> m
        | Some a \<Rightarrow>
            saved E ''The annotation has been saved'' response (emit (CreateResource a) m)))"

definition set_key :: "string_key \<Rightarrow> string \<Rightarrow> AnnotationObject \<Rightarrow> AnnotationObject" where
  "set_key k v a =
    (case k of
       Short_descr \<Rightarrow> a\<lparr>short_descr := Some v\<rparr>
     | Start_dttm \<Rightarrow> a\<lparr>start_dttm := Some v\<rparr>
     | End_dttm \<Rightarrow> a\<lparr>end_dttm := Some v\<rparr>
     | Json_metadata \<Rightarrow> a\<lparr>json_metadata := Some v\<rparr>
     | Long_descr \<Rightarrow> a\<lparr>long_descr := Some v\<rparr>
     | Changed_on_delta_humanized \<Rightarrow> a\<lparr>changed_on_delta_humanized := Some v\<rparr>)"

text \<open>\<open>currentAnnotation ? currentAnnotation.f : ''\<close>.\<close>

definition field_or_empty ::
  "AnnotationObject option \<Rightarrow> (AnnotationObject \<Rightarrow> string option) \<Rightarrow> string option" where
  "field_or_empty ca f = (case ca of None \<Rightarrow> Some [] | Some a \<Rightarrow> f a)"

text \<open>\<open>currentAnnotation?.f ?? ''\<close>.\<close>

definition field_coalesce ::
  "AnnotationObject option \<Rightarrow> (AnnotationObject \<Rightarrow> string option) \<Rightarrow> string option" where
  "field_coalesce ca f =
    (case ca of None \<Rightarrow> Some [] | Some a \<Rightarrow> (case f a of None \<Rightarrow> Some [] | Some s \<Rightarrow> Some s))"

definition onAnnotationTextChange :: "string_key \<Rightarrow> string \<Rightarrow> modal \<Rightarrow> modal" where
  "onAnnotationTextChange name v m =
    (let ca = currentAnnotation m;
         data = (spread_annotation ca)
                  \<lparr>end_dttm := field_or_empty ca end_dttm,
                   short_descr := field_or_empty ca short_descr,
                   start_dttm := field_or_empty ca start_dttm\<rparr>
     in setCurrentAnnotation (Some (set_key name v data)) m)"

definition onJsonChange :: "string \<Rightarrow> modal \<Rightarrow> modal" where
  "onJsonChange json m =
    (let ca = currentAnnotation m;
         data = (spread_annotation ca)
                  \<lparr>end_dttm := field_or_empty ca end_dttm,
                   json_metadata := Some json,
                   short_descr := field_or_empty ca short_descr,
                   start_dttm := field_or_empty ca start_dttm\<rparr>
     in setCurrentAnnotation (Some data) m)"

text \<open>\<open>onDateChange\<close>: \<open>dates\<close> is \<open>null\<close> or a pair whose components are \<open>null\<close> or
  a date, given by what its \<open>format('YYYY-MM-DD HH:mm')\<close> returns.\<close>

definition onDateChange :: "(string option \<times> string option) option \<Rightarrow> modal \<Rightarrow> modal" where
  "onDateChange dates m =
    (let ca = currentAnnotation m
     in case dates of
          Some (Some d0, Some d1) \<Rightarrow>
            setCurrentAnnotation
              (Some ((spread_annotation ca)
                 \<lparr>start_dttm := Some d0, end_dttm := Some d1,
                  short_descr := field_coalesce ca short_descr\<rparr>)) m
        | _ \<Rightarrow>
            setCurrentAnnotation
              (Some ((spread_annotation ca)
                 \<lparr>start_dttm := Some [], end_dttm := Some [],
                  short_descr := field_coalesce ca short_descr\<rparr>)) m)"

text \<open>\<open>currentAnnotation?.f?.length\<close> as a condition.\<close>

definition has_length ::
  "AnnotationObject option \<Rightarrow> (AnnotationObject \<Rightarrow> string option) \<Rightarrow> bool" where
  "has_length ca f =
    (case ca of None \<Rightarrow> False | Some a \<Rightarrow> (case f a of None \<Rightarrow> False | Some s \<Rightarrow> length s \<noteq> 0))"

definition validate :: "modal \<Rightarrow> modal" where
  "validate m =
    (if has_length (currentAnnotation m) short_descr \<and>
        has_length (currentAnnotation m) start_dttm \<and>
        has_length (currentAnnotation m) end_dttm
     then m\<lparr>disableSave := False\<rparr>
     else m\<lparr>disableSave := True\<rparr>)"

text \<open>The dependency array of the validation effect.\<close>

definition validation_deps ::
  "modal \<Rightarrow> string option \<times> string option \<times> string option" where
  "validation_deps m =
    (field_or_empty (currentAnnotation m) short_descr,
     field_or_empty (currentAnnotation m) start_dttm,
     field_or_empty (currentAnnotation m) end_dttm)"

text \<open>An effect runs after the first render and after a render in which a dependency
  differs from the one it last ran with.\<close>

definition validation_effect :: "modal \<Rightarrow> modal" where
  "validation_effect m =
    (if validated m = Some (validation_deps m) then m
     else (validate m)\<lparr>validated := Some (validation_deps m)\<rparr>)"

text \<open>The body of the effect on \<open>[annotation]\<close>. \<open>annotation?.id !== null\<close> holds of
  every \<open>AnnotationObject\<close>: an absent id is \<open>undefined\<close>.\<close>

definition initialize :: "modal \<Rightarrow> modal" where
  "initialize m =
    (let ca = currentAnnotation m;
         id_truthy = (case ca of None \<Rightarrow> False
                      | Some c \<Rightarrow> (case annotation_id c of None \<Rightarrow> False | Some i \<Rightarrow> i \<noteq> 0))
     in case annotation (props m) of
          Some a \<Rightarrow>
            if \<not> id_truthy \<or> annotation_id a \<noteq> annotation_id (spread_annotation ca) \<or>
               show_prop (props m)
            then (if \<not> loading m
                  then emit (FetchResource (case annotation_id a of None \<Rightarrow> 0 | Some i \<Rightarrow> i)) m
                  else m)
            else m
        | None \<Rightarrow>
            if ca = None \<or> id_truthy \<or> show_prop (props m) then resetAnnotation m else m)"

text \<open>The body of the effect on \<open>[resource]\<close>.\<close>

definition resource_effect :: "modal \<Rightarrow> modal" where
  "resource_effect m =
    (case resource m of None \<Rightarrow> m | Some r \<Rightarrow> setCurrentAnnotation (Some r) m)"

text \<open>
  What happens to a mounted modal: the three input handlers, closing, saving (with the
  hook's response), new props from the parent, and a change of the hook's state. The
  flag of the last two says that the \<open>annotation\<close> prop, or the hook's \<open>resource\<close>,
  is a new object, which reruns the effect that depends on it even when it is equal to
  the old one.
\<close>

datatype modal_event =
    TextChange string_key string
  | JsonChange string
  | DateChange "(string option \<times> string option) option"
  | Hide
  | Save jsval
  | SetProps AnnotationModalProps bool
  | HookState "AnnotationObject option" bool bool

text \<open>
  The renders React commits for one event, in order. The first is the render with the
  state the handler left: \<open>disableSave\<close> is still the old one there, since an effect
  runs only after the render is committed. The effects of a render see the state of that
  render; a state update of an effect causes one more render. So a handler's render is
  followed by the render after the validation effect, and a new \<open>annotation\<close> prop or
  hook \<open>resource\<close> by the render after the effect that depends on it (and the validation
  effect of the first render), then by the render after the validation effect of that.
  The last render of the list is stable: no effect changes it.
\<close>

definition after_update :: "modal \<Rightarrow> modal list" where
  "after_update m = [m, validation_effect m]"

definition commits :: "externals \<Rightarrow> modal_event \<Rightarrow> modal \<Rightarrow> modal list" where
  "commits E ev m =
    (case ev of
       TextChange k v \<Rightarrow> after_update (onAnnotationTextChange k v m)
     | JsonChange j \<Rightarrow> after_update (onJsonChange j m)
     | DateChange d \<Rightarrow> after_update (onDateChange d m)
     | Hide \<Rightarrow> after_update (hide m)
     | Save response \<Rightarrow> after_update (onSave E response m)
     | SetProps P fresh \<Rightarrow>
         if fresh \<or> annotation P \<noteq> annotation (props m)
         then m\<lparr>props := P\<rparr> #
              after_update (initialize (validation_effect (m\<lparr>props := P\<rparr>)))
         else after_update (m\<lparr>props := P\<rparr>)
     | HookState r l fresh \<Rightarrow>
         if fresh \<or> r \<noteq> resource m
         then m\<lparr>resource := r, loading := l\<rparr> #
              after_update (resource_effect (validation_effect (m\<lparr>resource := r, loading := l\<rparr>)))
         else after_update (m\<lparr>resource := r, loading := l\<rparr>))"

text \<open>One event, to the stable render.\<close>

definition step :: "externals \<Rightarrow> modal_event \<Rightarrow> modal \<Rightarrow> modal" where
  "step E ev m = last (commits E ev m)"

text \<open>The renders of mounting: the first render, with the initial state of the
  component and of the hook, the render after its three effects, and the render after
  the validation effect of that.\<close>

definition mount_commits ::
  "AnnotationModalProps \<Rightarrow> AnnotationObject option \<Rightarrow> bool \<Rightarrow> modal list" where
  "mount_commits P r l =
    (let m0 = \<lparr>props = P, disableSave = True, currentAnnotation = None, resource = r,
               loading = l, validated = None, effects = []\<rparr>
     in m0 # after_update (resource_effect (initialize (validation_effect m0))))"

definition mount :: "AnnotationModalProps \<Rightarrow> AnnotationObject option \<Rightarrow> bool \<Rightarrow> modal" where
  "mount P r l = last (mount_commits P r l)"

text \<open>All renders committed while a list of events happens, and the stable render at
  its end.\<close>

fun renders :: "externals \<Rightarrow> modal \<Rightarrow> modal_event list \<Rightarrow> modal list" where
  "renders E m [] = []"
| "renders E m (ev # evs) = commits E ev m @ renders E (step E ev m) evs"

definition run :: "externals \<Rightarrow> modal \<Rightarrow> modal_event list \<Rightarrow> modal" where
  "run E m evs = foldl (\<lambda>m' ev. step E ev m') m evs"

text \<open>What the component renders from its state: the \<open>disablePrimaryButton\<close> and
  \<open>show\<close> of the \<open>Modal\<close>, its mode, and the values of the four inputs.\<close>

record rendered =
  disablePrimaryButton :: bool
  modal_shown :: bool
  edit_mode :: bool
  name_value :: "string option"
  range_value :: "(string option \<times> string option) option"
  description_value :: "string option"
  json_value :: string

definition render :: "modal \<Rightarrow> rendered" where
  "render m =
    (let ca = currentAnnotation m
     in \<lparr>disablePrimaryButton = disableSave m,
         modal_shown = show_prop (props m),
         edit_mode = isEditMode m,
         name_value = (case ca of None \<Rightarrow> None | Some a \<Rightarrow> short_descr a),
         range_value =
           (if has_length ca start_dttm \<or> has_length ca end_dttm
            then Some (start_dttm (spread_annotation ca), end_dttm (spread_annotation ca))
            else None),
         description_value = field_or_empty ca long_descr,
         json_value =
           (case ca of None \<Rightarrow> []
            | Some a \<Rightarrow> (case json_metadata a of None \<Rightarrow> [] | Some j \<Rightarrow> j))\<rparr>)"

section \<open>QueryAutoRefresh\<close>

text \<open>
  The component \<open>src/SqlLab/components/QueryAutoRefresh\<close> is not among the sources;
  its test file is. The definitions of this section follow the specification's sentences
  on the polling loop, and the test's expectations where they say more.
\<close>

datatype QueryState = Running | Succeeded | Failed

record query =
  query_id :: string
  state :: QueryState

type_synonym QueryDictionary = "(string \<times> query) list"

datatype sqllab_action = RefreshQueries "query list" | ClearInactiveQueries

record poller =
  poll_requests :: "request list"
  poll_actions :: "sqllab_action list"

definition isQueryRunning :: "query \<Rightarrow> bool" where
  \<comment> \<open>Modelled from the spec: the source of \<open>isQueryRunning\<close> is missing. "a query
      record with a running/succeeded/failed state used only to decide whether to keep
      polling".\<close>
  "isQueryRunning q = (state q = Running)"

definition shouldCheckForQueries :: "QueryDictionary \<Rightarrow> bool" where
  \<comment> \<open>Modelled from the spec: the source of \<open>shouldCheckForQueries\<close> is missing. The
      loop polls "while any tracked query is in a running state".\<close>
  "shouldCheckForQueries queries = list_ex isQueryRunning (map snd queries)"

definition refresh_request :: request where
  \<comment> \<open>Modelled from the spec: \<open>GET /api/v1/query/updated_since\<close>, the endpoint the test
      mocks; its query string is not modelled.\<close>
  "refresh_request = Request ''GET'' ''/api/v1/query/updated_since'' []"

definition tick :: "QueryDictionary \<Rightarrow> query list option \<Rightarrow> poller \<Rightarrow> poller" where
  \<comment> \<open>Modelled from the spec: the source of the polling loop of \<open>QueryAutoRefresh\<close> is
      missing. One timer tick, with the result list of the server's answer, or \<open>None\<close>
      when the request fails or is not answered: "while any tracked query is in a running
      state, the loop issues a single outstanding network request to fetch status
      updates, dispatches a refresh action with the results, and dispatches a separate
      action to prune queries no longer pending; when no query is running, polling skips
      the network call entirely". Without an answer there are no results to dispatch
      ("no retries", no "failure recovery"). The test expects no refresh action for an
      empty result list, and the prune action when no query is running.\<close>
  "tick queries answer p =
    (if shouldCheckForQueries queries then
       p\<lparr>poll_requests := poll_requests p @ [refresh_request],
         poll_actions := poll_actions p @
           (case answer of
              None \<Rightarrow> []
            | Some results \<Rightarrow>
                if results = [] then [ClearInactiveQueries]
                else [RefreshQueries results, ClearInactiveQueries])\<rparr>
     else p\<lparr>poll_actions := poll_actions p @ [ClearInactiveQueries]\<rparr>)"

section \<open>Notions used in the statements and proofs\<close>

text \<open>The own enumerable property \<open>k\<close> of a value, if it has one.\<close>

definition own_prop :: "jsval \<Rightarrow> string \<Rightarrow> jsval option" where
  "own_prop v k = map_of (own_props v) k"

text \<open>\<open>clientError?.message || clientError?.error || t('Failed to load chart data.')\<close>
  with the disjunctions written out.\<close>

definition toast_message :: "externals \<Rightarrow> jsval \<Rightarrow> jsval" where
  "toast_message E clientError =
     (if truthy (get clientError ''message'') then get clientError ''message''
      else if truthy (get clientError ''error'') then get clientError ''error''
      else JStr (tr E ''Failed to load chart data.''))"

definition chart_requests :: "page_input \<Rightarrow> jsval \<Rightarrow> request list" where
  "chart_requests inp err =
     (if truthy err \<and> truthy (get (get err ''extra'') ''datasource'') then
        (case map_of (exploreUrlParams inp) ''slice_id'' of
           None \<Rightarrow> []
         | Some c \<Rightarrow> if c \<noteq> [] then [chart_request c] else [])
      else [])"

definition filled :: "string option \<Rightarrow> bool" where
  "filled x = (case x of None \<Rightarrow> False | Some s \<Rightarrow> s \<noteq> [])"

text \<open>The invariant of the validation effect, true of every render: \<open>disableSave\<close>
  is what \<open>validate\<close> computed from the dependencies the effect last ran with, and
  still its initial \<open>true\<close> before the effect first ran. In a stable render these
  dependencies are the current ones.\<close>

definition button_as_validated :: "modal \<Rightarrow> bool" where
  "button_as_validated m =
    (case validated m of
       None \<Rightarrow> disableSave m
     | Some d \<Rightarrow>
         disableSave m = (\<not> (filled (fst d) \<and> filled (fst (snd d)) \<and> filled (snd (snd d)))))"

definition settled_modal :: "modal \<Rightarrow> bool" where
  "settled_modal m = (button_as_validated m \<and> validated m = Some (validation_deps m))"

definition is_save_call :: "modal_effect \<Rightarrow> bool" where
  "is_save_call e =
    (case e of UpdateResource i a \<Rightarrow> True | CreateResource a \<Rightarrow> True | _ \<Rightarrow> False)"

text \<open>What \<open>onSave\<close> does after a truthy response: the optional callback, \<open>hide()\<close>,
  the success toast.\<close>

definition success_effects :: "externals \<Rightarrow> modal \<Rightarrow> modal_effect list" where
  "success_effects E m =
    (if onAnnotationAdd (props m) then [OnAnnotationAdd] else []) @
    [OnHide,
     AddSuccessToast (tr E (if isEditMode m then ''The annotation has been updated''
                            else ''The annotation has been saved''))]"

section \<open>Concrete inputs\<close>

definition show_string :: "jsval \<Rightarrow> string" where
  "show_string v = (case v of JStr s \<Rightarrow> s | _ \<Rightarrow> ''[object Object]'')"

definition error_of_message :: "jsval \<Rightarrow> jsval" where
  "error_of_message err = JObj [(''error'', get err ''message'')]"

definition spread_context :: "jsval \<Rightarrow> jsval \<Rightarrow> jsval \<Rightarrow> jsval" where
  "spread_context form_data ctx save_action = JObj (spread form_data ctx)"

definition ext0 :: externals where
  "ext0 = \<lparr>tr = id, to_string = show_string, getClientErrorObject = error_of_message,
           getFormDataWithDashboardContext = spread_context\<rparr>"

definition world0 :: world where
  "world0 =
    \<lparr>fallbackExploreInitialData =
       [(''form_data'', JObj [(''datasource'', JStr ''0__table''), (''viz_type'', JStr ''table'')]),
        (''dataset'', JObj [(''id'', JNum 0), (''type'', JStr ''table'')]),
        (''slice'', JNull)],
     actions = [], requests = [], isLoaded = False, isExploreInitialized = False\<rparr>"

definition input0 :: page_input where
  "input0 = \<lparr>exploreUrlParams = [(''slice_id'', ''42'')], saveAction = JNull,
              dashboardContextFormData = JNull\<rparr>"

definition response_deleted_dataset :: jsval where
  "response_deleted_dataset =
    JObj [(''result'', JObj
      [(''form_data'', JObj [(''viz_type'', JStr ''pie''), (''metric'', JStr ''count'')]),
       (''dataset'', JObj [(''name'', JStr ''missing'')]),
       (''slice'', JObj [(''slice_id'', JNum 42)])])]"

definition net_deleted_dataset :: network where
  "net_deleted_dataset rq =
    (if endpoint rq = ''api/v1/explore/'' then Fulfilled response_deleted_dataset
     else Rejected (ErrorInstance ''Failed to fetch''))"

definition missing_datasource :: "(string \<times> jsval) list" where
  "missing_datasource =
    [(''message'', JStr ''The dataset associated with this chart no longer exists''),
     (''extra'', JObj [(''datasource'', JNum 7), (''datasource_name'', JStr ''births'')])]"

definition error_missing_datasource :: jsval where
  "error_missing_datasource = JObj missing_datasource"

definition net_missing_datasource :: network where
  "net_missing_datasource rq =
    (if endpoint rq = ''api/v1/explore/'' then Rejected (ErrorObject missing_datasource)
     else Fulfilled (JObj [(''result'',
            JObj [(''id'', JNum 42), (''url'', JStr ''/explore/?slice_id=42''),
                  (''owners'', JArr [JObj [(''id'', JNum 1)]]),
                  (''slice_name'', JStr ''Births'')])]))"

definition annotation0 :: AnnotationObject where
  "annotation0 =
    \<lparr>annotation_id = Some 5, short_descr = Some ''release'',
     start_dttm = Some ''2024-01-01 00:00'', end_dttm = Some ''2024-01-02 00:00'',
     json_metadata = Some [], long_descr = Some ''v1'',
     created_by = Some (JObj [(''id'', JNum 1)]), changed_by = Some (JObj [(''id'', JNum 1)]),
     changed_on_delta_humanized = Some ''a day ago'', layer = Some (JObj [(''id'', JNum 3)])\<rparr>"

definition add_props :: AnnotationModalProps where
  "add_props = \<lparr>annotationLayerId = 3, annotation = None, onAnnotationAdd = True, show_prop = True\<rparr>"

definition edit_props :: AnnotationModalProps where
  "edit_props =
    \<lparr>annotationLayerId = 3, annotation = Some annotation0, onAnnotationAdd = True, show_prop = True\<rparr>"

definition typing_events :: "modal_event list" where
  "typing_events =
    [TextChange Short_descr ''release'',
     DateChange (Some (Some ''2024-01-01 00:00'', Some ''2024-01-02 00:00'')),
     JsonChange ''{}'',
     DateChange (Some (Some ''2024-01-01 00:00'', None))]"

definition clear_name_events :: "modal_event list" where
  "clear_name_events =
    [TextChange Short_descr ''release'',
     DateChange (Some (Some ''2024-01-01 00:00'', Some ''2024-01-02 00:00'')),
     TextChange Short_descr []]"

definition stale_render :: modal where
  "stale_render = renders ext0 (mount add_props None False) clear_name_events ! 4"

definition editing_modal :: modal where
  "editing_modal =
    \<lparr>props = edit_props, disableSave = False, currentAnnotation = Some annotation0,
     resource = Some annotation0, loading = False,
     validated = Some (Some ''release'', Some ''2024-01-01 00:00'', Some ''2024-01-02 00:00''),
     effects = [FetchResource 5]\<rparr>"

definition running_queries :: QueryDictionary where
  "running_queries = [(''abcd'', \<lparr>query_id = ''abcd'', state = Running\<rparr>)]"

definition successful_queries :: QueryDictionary where
  "successful_queries = [(''ryhMUZCGb'', \<lparr>query_id = ''ryhMUZCGb'', state = Succeeded\<rparr>)]"

definition poller0 :: poller where
  "poller0 = \<lparr>poll_requests = [], poll_actions = []\<rparr>"

section \<open>Properties of the JavaScript values and of the explore page\<close>

lemma get_JObj [simp]:
  "get (JObj kvs) k = (case map_of kvs k of Some x \<Rightarrow> x | None \<Rightarrow> JUndefined)"
  by (simp add: get_def split: option.splits)

lemma get_nullish [simp]: "nullish v \<Longrightarrow> get v k = JUndefined"
  by (cases v) (simp_all add: get_def)

lemma get_JErr [simp]: "get (JErr m) k = (if k = ''message'' then JStr m else JUndefined)"
  by (simp add: get_def)

lemma isValidResult_result:
  "isValidResult rv \<Longrightarrow> \<not> nullish rv \<and> \<not> nullish (get rv ''result'')"
  by (cases "nullish rv"; cases "nullish (get rv ''result'')")
     (auto simp: isValidResult_def js_and_def)

lemma fetched_cases:
  "fetched E rv w =
    (if isValidResult rv \<and> hasDatasetId rv then (Fulfilled rv, w)
     else
      (Rejected (JErr
         (if truthy (get (get rv ''result'') ''message'')
          then tr E ''Failed to load chart data'' @ '':'' @ [CHR 0x0A] @
               to_string E (get (get rv ''result'') ''message'')
          else tr E ''Failed to load chart data'')),
       if isValidResult rv then
         w\<lparr>fallbackExploreInitialData :=
             (if truthy (get (get rv ''result'') ''slice'')
              then [(''slice'', get (get rv ''result'') ''slice'')] else []) @
             (''form_data'',
              JObj (own_props (get (JObj (fallbackExploreInitialData w)) ''form_data'') @
                    own_props (get (get rv ''result'') ''form_data''))) #
             fallbackExploreInitialData w\<rparr>
       else w))"
  by (simp add: fetched_def Let_def obj_set_def spread_def)

lemma fetchExploreData_eq:
  "fetchExploreData E net ps w =
     (case net (explore_request ps) of
        Rejected f \<Rightarrow>
          (Rejected (thrown f), w\<lparr>requests := requests w @ [explore_request ps]\<rparr>)
      | Fulfilled rv \<Rightarrow> fetched E rv (w\<lparr>requests := requests w @ [explore_request ps]\<rparr>))"
  by (simp add: fetchExploreData_def makeApi_def then_p_def split: settled.splits)

lemma fetch_fulfilled_valid:
  "fetchExploreData E net ps w = (Fulfilled rv, w') \<Longrightarrow>
   isValidResult rv \<and> w' = w\<lparr>requests := requests w @ [explore_request ps]\<rparr>"
  by (auto simp: fetchExploreData_eq fetched_cases split: settled.splits if_splits)

lemma fetch_actions: "actions (snd (fetchExploreData E net ps w)) = actions w"
  by (auto simp: fetchExploreData_eq fetched_cases split: settled.splits if_splits)

lemma fetch_requests:
  "requests (snd (fetchExploreData E net ps w)) = requests w @ [explore_request ps]"
  by (auto simp: fetchExploreData_eq fetched_cases split: settled.splits if_splits)

lemma dec_0 [simp]: "dec 0 = ''0''" and dec_1 [simp]: "dec (Suc 0) = ''1''"
  by (simp_all add: dec.simps)

lemma get_pair [simp]: "get (JArr [a, b]) ''0'' = a" "get (JArr [a, b]) ''1'' = b"
  by (simp_all add: get_def upt_rec)

lemma get_empty_arr [simp]: "get (JArr []) ''1'' = JUndefined"
  by (simp add: get_def)

lemma ExplorePage_rejected:
  assumes "fst (fetchExploreData E net (exploreUrlParams inp) w) = Rejected err"
    and "\<not> isExploreInitialized w \<or> truthy (saveAction inp)"
  shows "ExplorePage E net inp w =
    loaded (snd (report_error E net inp (JArr [getClientErrorObject E err, err])
                   (snd (fetchExploreData E net (exploreUrlParams inp) w))))"
  using assms
  by (cases "fetchExploreData E net (exploreUrlParams inp) w")
     (auto simp: ExplorePage_def then_p_def catch_p_def finally_p_def client_error_def
           split: prod.splits settled.splits)

lemma report_error_undefined:
  "report_error E net inp JUndefined w = (Fulfilled JUndefined, w)"
  by (simp add: report_error_def js_or_def Let_def)

lemma report_error_truthy_actions:
  assumes "truthy err"
  shows "\<exists>rest. actions (snd (report_error E net inp (JArr [ce, err]) w)) =
           actions w @ AddDangerToast (toast_message E ce) # rest"
proof (cases "truthy (get (get err ''extra'') ''datasource'')")
  case False
  with assms show ?thesis
    by (simp add: report_error_def js_or_def Let_def dispatch_def toast_message_def)
next
  case True
  show ?thesis
  proof (cases "map_of (exploreUrlParams inp) ''slice_id''")
    case None
    with assms True show ?thesis
      by (simp add: report_error_def js_or_def Let_def dispatch_def toast_message_def
            then_p_def catch_p_def)
  next
    case (Some c)
    show ?thesis
    proof (cases "c = []")
      case True
      with assms \<open>truthy (get (get err ''extra'') ''datasource'')\<close> Some show ?thesis
        by (simp add: report_error_def js_or_def Let_def dispatch_def toast_message_def
              then_p_def catch_p_def)
    next
      case False
      with assms \<open>truthy (get (get err ''extra'') ''datasource'')\<close> Some show ?thesis
        by (auto simp: report_error_def js_or_def Let_def dispatch_def toast_message_def
              then_p_def catch_p_def makeApi_def hydrate_chart_def
              split: settled.splits option.splits)
    qed
  qed
qed

lemma report_error_Error:
  "report_error E net inp (JArr [ce, JErr m]) w =
    (Fulfilled JUndefined,
     dispatch (HydrateExplore (JObj (fallbackExploreInitialData w)))
       (dispatch (AddDangerToast (toast_message E ce)) w))"
  by (simp add: report_error_def js_or_def Let_def dispatch_def toast_message_def)

text \<open>
  Claim C4. When the explore API answers with a payload that has \<open>form_data\<close> and
  \<open>dataset\<close> but whose dataset has no id, \<open>fetchExploreData\<close> throws an Error instead
  of returning the payload, after it has merged the response's \<open>form_data\<close> into the one
  of \<open>fallbackExploreInitialData\<close> (the fallback's own keys are kept, the response adds
  the others), stored the response's \<open>slice\<close> there when it is present, and left every
  other binding alone. When the effect of \<open>ExplorePage\<close> makes that fetch, it dispatches
  a danger toast and then hydrates the explore view with the fallback object so changed.
\<close>

theorem fetchExploreData_dataset_without_id:
  assumes api: "net (explore_request ps) = Fulfilled rv"
    and valid: "isValidResult rv"
    and noid: "\<not> hasDatasetId rv"
  shows "(\<exists>m. fst (fetchExploreData E net ps w) = Rejected (JErr m)) \<and>
    (let fb = JObj (fallbackExploreInitialData w);
         fb' = JObj (fallbackExploreInitialData (snd (fetchExploreData E net ps w)));
         result = get rv ''result''
     in (\<forall>k. own_prop (get fb' ''form_data'') k =
               (case own_prop (get fb ''form_data'') k of
                  Some v \<Rightarrow> Some v
                | None \<Rightarrow> own_prop (get result ''form_data'') k)) \<and>
        get fb' ''slice'' =
          (if truthy (get result ''slice'') then get result ''slice'' else get fb ''slice'') \<and>
        (\<forall>k. k \<noteq> ''form_data'' \<and> k \<noteq> ''slice'' \<longrightarrow> get fb' k = get fb k) \<and>
        ((\<not> isExploreInitialized w \<or> truthy (saveAction inp)) \<and> exploreUrlParams inp = ps \<longrightarrow>
           (\<exists>toast. actions (ExplorePage E net inp w) =
              actions w @ [AddDangerToast toast, HydrateExplore fb']) \<and>
           JObj (fallbackExploreInitialData (ExplorePage E net inp w)) = fb'))"
proof -
  define w1 where "w1 = w\<lparr>requests := requests w @ [explore_request ps]\<rparr>"
  have f: "fetchExploreData E net ps w = fetched E rv w1"
    using api by (simp add: fetchExploreData_eq w1_def)
  obtain m where r: "fst (fetched E rv w1) = Rejected (JErr m)"
    using valid noid by (simp add: fetched_cases)
  have fb': "fallbackExploreInitialData (snd (fetched E rv w1)) =
      (if truthy (get (get rv ''result'') ''slice'')
       then [(''slice'', get (get rv ''result'') ''slice'')] else []) @
      (''form_data'', JObj (own_props (get (JObj (fallbackExploreInitialData w)) ''form_data'') @
                           own_props (get (get rv ''result'') ''form_data''))) #
      fallbackExploreInitialData w"
    using valid noid by (simp add: fetched_cases w1_def)
  have acts: "actions (snd (fetched E rv w1)) = actions w"
    using valid noid by (simp add: fetched_cases w1_def)
  have c1: "\<exists>m. fst (fetchExploreData E net ps w) = Rejected (JErr m)"
    using f r by auto
  have c2: "own_prop (get (JObj (fallbackExploreInitialData (snd (fetched E rv w1)))) ''form_data'') k =
      (case own_prop (get (JObj (fallbackExploreInitialData w)) ''form_data'') k of
         Some v \<Rightarrow> Some v
       | None \<Rightarrow> own_prop (get (get rv ''result'') ''form_data'') k)" for k
    unfolding fb' by (simp add: own_prop_def map_add_def split: option.splits)
  have c3: "get (JObj (fallbackExploreInitialData (snd (fetched E rv w1)))) ''slice'' =
      (if truthy (get (get rv ''result'') ''slice'') then get (get rv ''result'') ''slice''
       else get (JObj (fallbackExploreInitialData w)) ''slice'')"
    unfolding fb' by simp
  have c4: "k \<noteq> ''form_data'' \<and> k \<noteq> ''slice'' \<longrightarrow>
      get (JObj (fallbackExploreInitialData (snd (fetched E rv w1)))) k =
      get (JObj (fallbackExploreInitialData w)) k" for k
    unfolding fb' by simp
  have c5: "(\<exists>toast. actions (ExplorePage E net inp w) =
              actions w @ [AddDangerToast toast,
                HydrateExplore (JObj (fallbackExploreInitialData (snd (fetched E rv w1))))]) \<and>
            JObj (fallbackExploreInitialData (ExplorePage E net inp w)) =
              JObj (fallbackExploreInitialData (snd (fetched E rv w1)))"
    if run: "\<not> isExploreInitialized w \<or> truthy (saveAction inp)" and ps: "exploreUrlParams inp = ps"
  proof -
    have "ExplorePage E net inp w =
        loaded (snd (report_error E net inp (JArr [getClientErrorObject E (JErr m), JErr m])
                       (snd (fetched E rv w1))))"
      using ExplorePage_rejected [of E net inp w "JErr m"] run r f ps by simp
    then show ?thesis
      by (simp add: report_error_Error loaded_def dispatch_def acts)
  qed
  show ?thesis
    unfolding Let_def f using c1 c2 c3 c4 c5 unfolding f by blast
qed

theorem fetchExploreData_dataset_without_id_witness:
  "net_deleted_dataset (explore_request (exploreUrlParams input0)) = Fulfilled response_deleted_dataset \<and>
   isValidResult response_deleted_dataset \<and>
   \<not> hasDatasetId response_deleted_dataset \<and>
   get (JObj (fallbackExploreInitialData
         (snd (fetchExploreData ext0 net_deleted_dataset (exploreUrlParams input0) world0)))) ''slice'' =
     JObj [(''slice_id'', JNum 42)] \<and>
   fst (fetchExploreData ext0 net_deleted_dataset (exploreUrlParams input0) world0) =
     Rejected (JErr ''Failed to load chart data'') \<and>
   actions (ExplorePage ext0 net_deleted_dataset input0 world0) =
     [AddDangerToast (JStr ''Failed to load chart data''),
      HydrateExplore (JObj (fallbackExploreInitialData
        (snd (fetchExploreData ext0 net_deleted_dataset (exploreUrlParams input0) world0))))]"
proof -
  have h1: "net_deleted_dataset (explore_request (exploreUrlParams input0)) =
      Fulfilled response_deleted_dataset"
    by (simp add: net_deleted_dataset_def explore_request_def)
  have h2: "isValidResult response_deleted_dataset"
    by (simp add: isValidResult_def response_deleted_dataset_def js_and_def)
  have h3: "\<not> hasDatasetId response_deleted_dataset"
    by (simp add: hasDatasetId_def response_deleted_dataset_def isDefined_def)
  have run: "\<not> isExploreInitialized world0"
    by (simp add: world0_def)
  have res: "get response_deleted_dataset ''result'' = JObj
      [(''form_data'', JObj [(''viz_type'', JStr ''pie''), (''metric'', JStr ''count'')]),
       (''dataset'', JObj [(''name'', JStr ''missing'')]),
       (''slice'', JObj [(''slice_id'', JNum 42)])]"
    by (simp add: response_deleted_dataset_def)
  note t = fetchExploreData_dataset_without_id
    [where net = net_deleted_dataset and ps = "exploreUrlParams input0" and E = ext0
       and w = world0 and inp = input0, OF h1 h2 h3]
  from t have c1: "get (JObj (fallbackExploreInitialData
         (snd (fetchExploreData ext0 net_deleted_dataset (exploreUrlParams input0) world0)))) ''slice'' =
     JObj [(''slice_id'', JNum 42)]"
    by (simp add: Let_def res)
  have c2: "fst (fetchExploreData ext0 net_deleted_dataset (exploreUrlParams input0) world0) =
     Rejected (JErr ''Failed to load chart data'')"
    using h1 h2 h3 by (simp add: fetchExploreData_eq fetched_cases res ext0_def)
  from t run obtain toast where a: "actions (ExplorePage ext0 net_deleted_dataset input0 world0) =
      actions world0 @ [AddDangerToast toast, HydrateExplore (JObj (fallbackExploreInitialData
        (snd (fetchExploreData ext0 net_deleted_dataset (exploreUrlParams input0) world0))))]"
    unfolding Let_def by blast
  have "ExplorePage ext0 net_deleted_dataset input0 world0 =
      loaded (snd (report_error ext0 net_deleted_dataset input0
        (JArr [getClientErrorObject ext0 (JErr ''Failed to load chart data''),
               JErr ''Failed to load chart data''])
        (snd (fetchExploreData ext0 net_deleted_dataset (exploreUrlParams input0) world0))))"
    using ExplorePage_rejected [OF c2] run by simp
  then have "hd (actions (ExplorePage ext0 net_deleted_dataset input0 world0)) =
      AddDangerToast (JStr ''Failed to load chart data'')"
    by (simp add: report_error_Error loaded_def dispatch_def fetch_actions world0_def
          toast_message_def ext0_def error_of_message_def)
  with a have "toast = JStr ''Failed to load chart data''"
    by (simp add: world0_def)
  with a have c3: "actions (ExplorePage ext0 net_deleted_dataset input0 world0) =
     [AddDangerToast (JStr ''Failed to load chart data''),
      HydrateExplore (JObj (fallbackExploreInitialData
        (snd (fetchExploreData ext0 net_deleted_dataset (exploreUrlParams input0) world0))))]"
    by (simp add: world0_def)
  show ?thesis
    using h1 h2 h3 c1 c2 c3 by blast
qed

lemma thrown_truthy [simp]: "truthy (thrown f)"
  by (cases f) simp_all

lemma fetch_rejected_truthy:
  "fst (fetchExploreData E net ps w) = Rejected err \<Longrightarrow> truthy err"
  by (auto simp: fetchExploreData_eq fetched_cases split: settled.splits if_splits)

text \<open>
  Claim C5. Whenever the explore data fetch inside \<open>ExplorePage\<close> is rejected, be it
  by the request or by the Error \<open>fetchExploreData\<close> throws, the first action the
  effect dispatches is a danger toast whose message is the client error object's
  \<open>message\<close> if that is truthy, else its \<open>error\<close> if that is truthy, else the text
  'Failed to load chart data.'. So no rejection of the fetch completes without the toast.
\<close>

theorem ExplorePage_rejection_toast:
  assumes "fst (fetchExploreData E net (exploreUrlParams inp) w) = Rejected err"
    and "\<not> isExploreInitialized w \<or> truthy (saveAction inp)"
  shows "\<exists>rest. actions (ExplorePage E net inp w) =
     actions w @
     AddDangerToast
       (let clientError = getClientErrorObject E err
        in if truthy (get clientError ''message'') then get clientError ''message''
           else if truthy (get clientError ''error'') then get clientError ''error''
           else JStr (tr E ''Failed to load chart data.'')) # rest"
proof -
  have t: "truthy err"
    using assms(1) by (rule fetch_rejected_truthy)
  have "ExplorePage E net inp w =
      loaded (snd (report_error E net inp (JArr [getClientErrorObject E err, err])
                     (snd (fetchExploreData E net (exploreUrlParams inp) w))))"
    using assms by (simp add: ExplorePage_rejected)
  moreover obtain rest where
    "actions (snd (report_error E net inp (JArr [getClientErrorObject E err, err])
                     (snd (fetchExploreData E net (exploreUrlParams inp) w)))) =
     actions (snd (fetchExploreData E net (exploreUrlParams inp) w)) @
       AddDangerToast (toast_message E (getClientErrorObject E err)) # rest"
    using report_error_truthy_actions [OF t] by blast
  ultimately show ?thesis
    by (simp add: loaded_def fetch_actions toast_message_def Let_def)
qed

theorem ExplorePage_rejection_toast_witness:
  "fst (fetchExploreData ext0 net_missing_datasource (exploreUrlParams input0) world0) =
     Rejected error_missing_datasource \<and>
   isExploreInitialized world0 = False \<and>
   (\<exists>rest. actions (ExplorePage ext0 net_missing_datasource input0 world0) =
      AddDangerToast (JStr ''The dataset associated with this chart no longer exists'') # rest)"
proof -
  have h1: "fst (fetchExploreData ext0 net_missing_datasource (exploreUrlParams input0) world0) =
     Rejected error_missing_datasource"
    by (simp add: fetchExploreData_eq net_missing_datasource_def explore_request_def
          error_missing_datasource_def)
  have h2: "\<not> isExploreInitialized world0 \<or> truthy (saveAction input0)"
    by (simp add: world0_def)
  from ExplorePage_rejection_toast [OF h1 h2]
  have "\<exists>rest. actions (ExplorePage ext0 net_missing_datasource input0 world0) =
      AddDangerToast (JStr ''The dataset associated with this chart no longer exists'') # rest"
    by (simp add: Let_def ext0_def error_of_message_def error_missing_datasource_def
          missing_datasource_def world0_def)
  with h1 show ?thesis
    by (simp add: world0_def)
qed

lemma report_error_requests:
  "requests (snd (report_error E net inp (JArr [ce, err]) w)) = requests w @ chart_requests inp err"
proof (cases "truthy err \<and> truthy (get (get err ''extra'') ''datasource'')")
  case False
  then show ?thesis
    by (auto simp: report_error_def js_or_def Let_def dispatch_def chart_requests_def)
next
  case True
  then show ?thesis
    by (auto simp: report_error_def js_or_def Let_def dispatch_def chart_requests_def
          then_p_def catch_p_def makeApi_def hydrate_chart_def
          split: settled.splits option.splits)
qed

lemma ExplorePage_fulfilled:
  assumes "fst (fetchExploreData E net (exploreUrlParams inp) w) = Fulfilled rv"
    and "\<not> isExploreInitialized w \<or> truthy (saveAction inp)"
  shows "requests (ExplorePage E net inp w) = requests w @ [explore_request (exploreUrlParams inp)]"
proof -
  obtain w1 where f: "fetchExploreData E net (exploreUrlParams inp) w = (Fulfilled rv, w1)"
    using assms(1) by (cases "fetchExploreData E net (exploreUrlParams inp) w") auto
  from fetch_fulfilled_valid [OF f] have v: "isValidResult rv"
    and w1: "w1 = w\<lparr>requests := requests w @ [explore_request (exploreUrlParams inp)]\<rparr>"
    by auto
  from isValidResult_result [OF v] have nn: "\<not> nullish rv" "\<not> nullish (get rv ''result'')"
    by auto
  show ?thesis
    using assms(2) nn
    by (simp add: ExplorePage_def f then_p_def catch_p_def finally_p_def hydrate_fetched_def
          Let_def dispatch_def report_error_undefined loaded_def w1)
qed

lemma ExplorePage_request_list:
  "requests (ExplorePage E net inp w) = requests w @
     (if \<not> isExploreInitialized w \<or> truthy (saveAction inp) then
        explore_request (exploreUrlParams inp) #
        (case fst (fetchExploreData E net (exploreUrlParams inp) w) of
           Fulfilled rv \<Rightarrow> []
         | Rejected err \<Rightarrow> chart_requests inp err)
      else [])"
proof (cases "\<not> isExploreInitialized w \<or> truthy (saveAction inp)")
  case False
  then show ?thesis by (simp add: ExplorePage_def)
next
  case run: True
  show ?thesis
  proof (cases "fst (fetchExploreData E net (exploreUrlParams inp) w)")
    case (Fulfilled rv)
    with run ExplorePage_fulfilled [OF Fulfilled run] show ?thesis by simp
  next
    case (Rejected err)
    have "ExplorePage E net inp w =
      loaded (snd (report_error E net inp (JArr [getClientErrorObject E err, err])
                   (snd (fetchExploreData E net (exploreUrlParams inp) w))))"
      using ExplorePage_rejected [OF Rejected run] .
    then have "requests (ExplorePage E net inp w) =
       (requests w @ [explore_request (exploreUrlParams inp)]) @ chart_requests inp err"
      by (simp add: loaded_def report_error_requests fetch_requests)
    with run Rejected show ?thesis
      by simp
  qed
qed

section \<open>Properties of the annotation modal\<close>

lemma has_length_filled: "has_length ca f = filled (field_or_empty ca f)"
  by (simp add: has_length_def filled_def field_or_empty_def split: option.splits)

lemma validation_effect_settles:
  "validated m = None \<or> button_as_validated m \<Longrightarrow> settled_modal (validation_effect m)"
  by (auto simp: settled_modal_def button_as_validated_def validation_effect_def validate_def
        validation_deps_def has_length_filled split: option.splits)

lemma settled_button: "settled_modal m \<Longrightarrow> button_as_validated m"
  by (simp add: settled_modal_def)

lemma button_as_validated_frame:
  "button_as_validated m \<Longrightarrow> validated m' = validated m \<Longrightarrow> disableSave m' = disableSave m \<Longrightarrow>
   button_as_validated m'"
  by (cases "validated m") (simp_all add: button_as_validated_def)

lemma hide_frame: "validated (hide m) = validated m" "disableSave (hide m) = disableSave m"
  by (simp_all add: hide_def emit_def setCurrentAnnotation_def resetAnnotation_def)

lemma saved_frame: "validated (saved E msg r m) = validated m"
  "disableSave (saved E msg r m) = disableSave m"
  by (simp_all add: saved_def hide_frame emit_def)

lemma onSave_frame: "validated (onSave E r m) = validated m"
  "disableSave (onSave E r m) = disableSave m"
  by (simp_all add: onSave_def saved_frame emit_def Let_def split: option.splits)

lemma text_frame: "validated (onAnnotationTextChange k v m) = validated m"
  "disableSave (onAnnotationTextChange k v m) = disableSave m"
  by (simp_all add: onAnnotationTextChange_def Let_def setCurrentAnnotation_def)

lemma json_frame: "validated (onJsonChange j m) = validated m"
  "disableSave (onJsonChange j m) = disableSave m"
  by (simp_all add: onJsonChange_def Let_def setCurrentAnnotation_def)

lemma date_frame: "validated (onDateChange d m) = validated m"
  "disableSave (onDateChange d m) = disableSave m"
  by (simp_all add: onDateChange_def Let_def setCurrentAnnotation_def
        split: option.splits prod.splits)

lemma initialize_frame: "validated (initialize m) = validated m"
  "disableSave (initialize m) = disableSave m"
  by (simp_all add: initialize_def Let_def setCurrentAnnotation_def resetAnnotation_def
        emit_def split: option.splits)

lemma resource_effect_frame: "validated (resource_effect m) = validated m"
  "disableSave (resource_effect m) = disableSave m"
  by (simp_all add: resource_effect_def setCurrentAnnotation_def split: option.splits)

lemma after_update_renders:
  assumes "button_as_validated m"
  shows "(\<forall>m' \<in> set (after_update m). button_as_validated m') \<and>
         settled_modal (last (after_update m))"
  using assms validation_effect_settles [of m] settled_button [of "validation_effect m"]
  by (simp add: after_update_def)

lemma commits_renders:
  assumes "settled_modal m"
  shows "(\<forall>m' \<in> set (commits E ev m). button_as_validated m') \<and> settled_modal (step E ev m)"
proof -
  have c: "button_as_validated m" using assms by (rule settled_button)
  show ?thesis
  proof (cases ev)
    case (TextChange k v)
    then show ?thesis
      using after_update_renders [OF button_as_validated_frame [OF c text_frame]]
      by (simp add: step_def commits_def)
  next
    case (JsonChange j)
    then show ?thesis
      using after_update_renders [OF button_as_validated_frame [OF c json_frame]]
      by (simp add: step_def commits_def)
  next
    case (DateChange d)
    then show ?thesis
      using after_update_renders [OF button_as_validated_frame [OF c date_frame]]
      by (simp add: step_def commits_def)
  next
    case Hide
    then show ?thesis
      using after_update_renders [OF button_as_validated_frame [OF c hide_frame]]
      by (simp add: step_def commits_def)
  next
    case (Save r)
    then show ?thesis
      using after_update_renders [OF button_as_validated_frame [OF c onSave_frame]]
      by (simp add: step_def commits_def)
  next
    case (SetProps P fresh)
    let ?m1 = "m\<lparr>props := P\<rparr>"
    have c1: "button_as_validated ?m1"
      by (rule button_as_validated_frame [OF c]) simp_all
    have "button_as_validated (validation_effect ?m1)"
      using validation_effect_settles [of ?m1] c1 settled_button by blast
    then have c2: "button_as_validated (initialize (validation_effect ?m1))"
      by (rule button_as_validated_frame) (simp_all add: initialize_frame)
    show ?thesis
      unfolding SetProps step_def commits_def modal_event.case
      using c1 after_update_renders [OF c1] after_update_renders [OF c2]
      by (cases "fresh \<or> annotation P \<noteq> annotation (props m)")
         (simp_all add: after_update_def)
  next
    case (HookState r l fresh)
    let ?m1 = "m\<lparr>resource := r, loading := l\<rparr>"
    have c1: "button_as_validated ?m1"
      by (rule button_as_validated_frame [OF c]) simp_all
    have "button_as_validated (validation_effect ?m1)"
      using validation_effect_settles [of ?m1] c1 settled_button by blast
    then have c2: "button_as_validated (resource_effect (validation_effect ?m1))"
      by (rule button_as_validated_frame) (simp_all add: resource_effect_frame)
    show ?thesis
      unfolding HookState step_def commits_def modal_event.case
      using c1 after_update_renders [OF c1] after_update_renders [OF c2]
      by (cases "fresh \<or> r \<noteq> resource m")
         (simp_all only: if_True if_False after_update_def list.set last.simps
            ball_simps insert_iff empty_iff, simp_all)
  qed
qed

lemma mount_renders:
  "(\<forall>m' \<in> set (mount_commits P r l). button_as_validated m') \<and> settled_modal (mount P r l)"
proof -
  let ?m0 = "\<lparr>props = P, disableSave = True, currentAnnotation = None, resource = r,
               loading = l, validated = None, effects = []\<rparr>"
  have c0: "button_as_validated ?m0"
    by (simp add: button_as_validated_def)
  have "button_as_validated (validation_effect ?m0)"
    using validation_effect_settles [of ?m0] settled_button by simp
  then have "button_as_validated (initialize (validation_effect ?m0))"
    by (rule button_as_validated_frame) (simp_all add: initialize_frame)
  then have "button_as_validated (resource_effect (initialize (validation_effect ?m0)))"
    by (rule button_as_validated_frame) (simp_all add: resource_effect_frame)
  from after_update_renders [OF this] c0 show ?thesis
    by (simp add: mount_def mount_commits_def Let_def after_update_def)
qed

lemma run_renders:
  "settled_modal m \<Longrightarrow>
   (\<forall>m' \<in> set (renders E m evs). button_as_validated m') \<and> settled_modal (run E m evs)"
proof (induction evs arbitrary: m)
  case Nil
  then show ?case by (simp add: run_def)
next
  case (Cons ev evs)
  from commits_renders [OF Cons.prems, of E ev]
  have c: "\<forall>m' \<in> set (commits E ev m). button_as_validated m'" and s: "settled_modal (step E ev m)"
    by auto
  from Cons.IH [OF s] c show ?case
    by (auto simp: run_def)
qed

lemma settled_disableSave:
  "settled_modal m \<Longrightarrow>
     disableSave m = (\<not> (has_length (currentAnnotation m) short_descr \<and>
       has_length (currentAnnotation m) start_dttm \<and> has_length (currentAnnotation m) end_dttm))"
  by (auto simp: settled_modal_def button_as_validated_def validation_deps_def has_length_filled)

text \<open>
  Claim C9, as amended. In \<open>AnnotationModal\<close>, after every state change and the
  validation effect that follows its render, the primary button is enabled
  (\<open>disableSave\<close> is false) if and only if there is a current annotation whose
  \<open>short_descr\<close>, \<open>start_dttm\<close> and \<open>end_dttm\<close> are all present and non-empty
  strings: this holds of the stable render after mounting and after any sequence of
  events. In every render, the one committed between a state update and the effect
  included, \<open>disableSave\<close> is what \<open>validate\<close> computed from the three fields the
  validation effect last ran with (and \<open>true\<close> before it first ran).
\<close>

theorem disableSave_iff_required_fields:
  "(\<forall>m' \<in> set (mount_commits P r l @ renders E (mount P r l) evs). button_as_validated m') \<and>
   (\<not> disableSave (run E (mount P r l) evs) \<longleftrightarrow>
     (\<exists>a s b e. currentAnnotation (run E (mount P r l) evs) = Some a \<and>
        short_descr a = Some s \<and> s \<noteq> [] \<and>
        start_dttm a = Some b \<and> b \<noteq> [] \<and>
        end_dttm a = Some e \<and> e \<noteq> []))"
proof -
  have m: "\<forall>m' \<in> set (mount_commits P r l). button_as_validated m'" "settled_modal (mount P r l)"
    using mount_renders [of P r l] by auto
  from run_renders [OF m(2), of E evs]
  have r: "\<forall>m' \<in> set (renders E (mount P r l) evs). button_as_validated m'"
    and s: "settled_modal (run E (mount P r l) evs)"
    by auto
  from settled_disableSave [OF s]
  have "\<not> disableSave (run E (mount P r l) evs) \<longleftrightarrow>
     (\<exists>a s b e. currentAnnotation (run E (mount P r l) evs) = Some a \<and>
        short_descr a = Some s \<and> s \<noteq> [] \<and>
        start_dttm a = Some b \<and> b \<noteq> [] \<and>
        end_dttm a = Some e \<and> e \<noteq> [])"
    by (auto simp: has_length_def split: option.splits)
  with m(1) r show ?thesis
    by auto
qed

lemma mount_add_props:
  "mount add_props None False =
      \<lparr>props = add_props, disableSave = True,
       currentAnnotation = Some (no_fields\<lparr>short_descr := Some [], start_dttm := Some [],
         end_dttm := Some [], json_metadata := Some [], long_descr := Some []\<rparr>),
       resource = None, loading = False, validated = Some (Some [], Some [], Some []),
       effects = []\<rparr>"
  by (simp add: mount_def mount_commits_def after_update_def validation_effect_def
        validation_deps_def field_or_empty_def validate_def has_length_def initialize_def
        resource_effect_def resetAnnotation_def setCurrentAnnotation_def add_props_def Let_def)

lemmas modal_eval =
  run_def step_def commits_def after_update_def validation_effect_def validation_deps_def
  field_or_empty_def field_coalesce_def validate_def has_length_def
  onAnnotationTextChange_def onJsonChange_def onDateChange_def setCurrentAnnotation_def
  spread_annotation_def set_key_def no_fields_def Let_def

theorem disableSave_iff_required_fields_witness:
  "disableSave (run ext0 (mount add_props None False) typing_events) \<and>
   \<not> disableSave (run ext0 (mount add_props None False) (butlast typing_events))"
proof -
  have c1: "\<exists>a. currentAnnotation (run ext0 (mount add_props None False) typing_events) = Some a \<and>
      end_dttm a = Some []"
    unfolding mount_add_props by (simp add: typing_events_def modal_eval)
  have c2: "\<exists>a. currentAnnotation (run ext0 (mount add_props None False) (butlast typing_events)) =
        Some a \<and> short_descr a = Some ''release'' \<and> start_dttm a = Some ''2024-01-01 00:00'' \<and>
        end_dttm a = Some ''2024-01-02 00:00''"
    unfolding mount_add_props by (simp add: typing_events_def modal_eval)
  from c1 disableSave_iff_required_fields
    [where E = ext0 and P = add_props and r = None and l = False and evs = typing_events]
  have "disableSave (run ext0 (mount add_props None False) typing_events)"
    by auto
  moreover from c2 disableSave_iff_required_fields
    [where E = ext0 and P = add_props and r = None and l = False
       and evs = "butlast typing_events"]
  have "\<not> disableSave (run ext0 (mount add_props None False) (butlast typing_events))"
    by auto
  ultimately show ?thesis by simp
qed

text \<open>
  Claim C9 as stated fails in the render committed right after a state update. With
  name and dates filled the button is enabled; clearing the name sets
  \<open>currentAnnotation\<close> (line 459), and the render that follows still has
  \<open>disableSave\<close> false with an empty \<open>short_descr\<close>. It is the fifth of the six
  renders of these three events; the validation effect disables the button in the sixth.
\<close>

theorem disableSave_stale_after_update:
  "length (renders ext0 (mount add_props None False) clear_name_events) = 6 \<and>
   disableSave stale_render = False \<and>
   map_option short_descr (currentAnnotation stale_render) = Some (Some []) \<and>
   disableSave (run ext0 (mount add_props None False) clear_name_events) = True"
  unfolding stale_render_def mount_add_props
  by (simp add: clear_name_events_def modal_eval)

lemma saved_effects:
  "effects (saved E msg response m) =
     effects m @ (if truthy response
                  then (if onAnnotationAdd (props m) then [OnAnnotationAdd] else []) @
                       [OnHide, AddSuccessToast (tr E msg)]
                  else [])"
  by (simp add: saved_def hide_def emit_def setCurrentAnnotation_def resetAnnotation_def)

lemma saved_falsy: "\<not> truthy response \<Longrightarrow> saved E msg response m = m"
  by (simp add: saved_def)

lemma render_delete:
  "currentAnnotation m = Some a \<Longrightarrow>
   render (emit e (m\<lparr>currentAnnotation := Some (a\<lparr>annotation_id := None, created_by := None,
      changed_by := None, changed_on_delta_humanized := None, layer := None\<rparr>)\<rparr>)) =
   render m"
  by (simp add: render_def emit_def isEditMode_def has_length_def spread_annotation_def
        field_or_empty_def Let_def)

lemma render_emit: "render (emit e m) = render m"
  by (simp add: render_def emit_def isEditMode_def)

text \<open>
  Claim C10. \<open>onSave\<close> makes at most one call of the resource hook
  (\<open>updateResource\<close> in edit mode, \<open>createResource\<close> otherwise). When that call
  resolves with a falsy response, nothing else happens: no \<open>onAnnotationAdd\<close>, no
  \<open>onHide\<close>, no success toast, and what the modal renders is unchanged. The callback,
  the hide and the success toast follow, in this order, only a call with a truthy
  response. In edit mode the payload of the update is the current annotation with
  \<open>id\<close>, \<open>created_by\<close>, \<open>changed_by\<close>, \<open>changed_on_delta_humanized\<close> and \<open>layer\<close>
  removed, and the id is passed separately.
\<close>

theorem onSave_response:
  "\<exists>calls. list_all is_save_call calls \<and> length calls \<le> 1 \<and>
     effects (onSave E response m) =
       effects m @ calls @ (if truthy response \<and> calls \<noteq> [] then success_effects E m else []) \<and>
     (\<not> truthy response \<longrightarrow> render (onSave E response m) = render m) \<and>
     (\<forall>i p. UpdateResource i p \<in> set calls \<longrightarrow>
        isEditMode m \<and>
        (\<exists>a. currentAnnotation m = Some a \<and> annotation_id a = Some i \<and>
           p = a\<lparr>annotation_id := None, created_by := None, changed_by := None,
                 changed_on_delta_humanized := None, layer := None\<rparr>)) \<and>
     (\<forall>p. CreateResource p \<in> set calls \<longrightarrow> \<not> isEditMode m \<and> currentAnnotation m = Some p)"
proof (cases "isEditMode m")
  case edit: True
  show ?thesis
  proof (cases "currentAnnotation m")
    case None
    with edit show ?thesis
      by (intro exI [of _ "[]"]) (simp add: onSave_def)
  next
    case (Some a)
    show ?thesis
    proof (cases "annotation_id a")
      case None
      with edit Some show ?thesis
        by (intro exI [of _ "[]"]) (simp add: onSave_def)
    next
      case (Some i)
      show ?thesis
      proof (cases "i = 0")
        case True
        with edit \<open>currentAnnotation m = Some a\<close> Some show ?thesis
          by (intro exI [of _ "[]"]) (simp add: onSave_def)
      next
        case False
        let ?a = "a\<lparr>annotation_id := None, created_by := None, changed_by := None,
                 changed_on_delta_humanized := None, layer := None\<rparr>"
        let ?m1 = "emit (UpdateResource i ?a) (m\<lparr>currentAnnotation := Some ?a\<rparr>)"
        have s: "onSave E response m = saved E ''The annotation has been updated'' response ?m1"
          using edit \<open>currentAnnotation m = Some a\<close> Some False by (simp add: onSave_def Let_def)
        have e: "effects (onSave E response m) =
            effects m @ [UpdateResource i ?a] @ (if truthy response then success_effects E m else [])"
          using edit by (simp add: s saved_effects emit_def success_effects_def)
        have r: "render (onSave E response m) = render m" if "\<not> truthy response"
          using that \<open>currentAnnotation m = Some a\<close>
          by (simp add: s saved_falsy render_delete)
        show ?thesis
          using e r edit \<open>currentAnnotation m = Some a\<close> Some
          by (intro exI [of _ "[UpdateResource i ?a]"]) (simp add: is_save_call_def)
      qed
    qed
  qed
next
  case add: False
  show ?thesis
  proof (cases "currentAnnotation m")
    case None
    with add show ?thesis
      by (intro exI [of _ "[]"]) (simp add: onSave_def)
  next
    case (Some a)
    have s: "onSave E response m =
        saved E ''The annotation has been saved'' response (emit (CreateResource a) m)"
      using add Some by (simp add: onSave_def)
    have e: "effects (onSave E response m) =
        effects m @ [CreateResource a] @ (if truthy response then success_effects E m else [])"
      using add by (simp add: s saved_effects emit_def success_effects_def isEditMode_def)
    have r: "render (onSave E response m) = render m" if "\<not> truthy response"
      using that by (simp add: s saved_falsy render_emit)
    show ?thesis
      using e r add Some
      by (intro exI [of _ "[CreateResource a]"]) (simp add: is_save_call_def)
  qed
qed

theorem onSave_response_witness:
  "\<not> truthy JUndefined \<and>
   render (onSave ext0 JUndefined editing_modal) = render editing_modal \<and>
   effects (onSave ext0 JUndefined editing_modal) =
     [FetchResource 5,
      UpdateResource 5 (annotation0\<lparr>annotation_id := None, created_by := None,
        changed_by := None, changed_on_delta_humanized := None, layer := None\<rparr>)] \<and>
   effects (onSave ext0 (JObj []) editing_modal) =
     [FetchResource 5,
      UpdateResource 5 (annotation0\<lparr>annotation_id := None, created_by := None,
        changed_by := None, changed_on_delta_humanized := None, layer := None\<rparr>),
      OnAnnotationAdd, OnHide, AddSuccessToast ''The annotation has been updated'']"
proof -
  have e: "isEditMode editing_modal" "currentAnnotation editing_modal = Some annotation0"
    "annotation_id annotation0 = Some 5" "effects editing_modal = [FetchResource 5]"
    "onAnnotationAdd (props editing_modal)"
    by (simp_all add: editing_modal_def isEditMode_def edit_props_def annotation0_def)
  have calls: "calls = [UpdateResource 5 (annotation0\<lparr>annotation_id := None, created_by := None,
        changed_by := None, changed_on_delta_humanized := None, layer := None\<rparr>)]"
    if "length calls \<le> 1" "effects (onSave ext0 r editing_modal) =
         effects editing_modal @ calls @
         (if truthy r \<and> calls \<noteq> [] then success_effects ext0 editing_modal else [])"
    for calls r
  proof -
    have "\<exists>more. effects (onSave ext0 r editing_modal) = effects editing_modal @
        UpdateResource 5 (annotation0\<lparr>annotation_id := None, created_by := None,
          changed_by := None, changed_on_delta_humanized := None, layer := None\<rparr>) # more"
      using e by (simp add: onSave_def Let_def saved_effects emit_def)
    with that show ?thesis
      by (cases calls) (auto simp: e split: if_splits)
  qed
  obtain c1 where c1: "length c1 \<le> 1"
      "effects (onSave ext0 JUndefined editing_modal) =
         effects editing_modal @ c1 @
         (if truthy JUndefined \<and> c1 \<noteq> [] then success_effects ext0 editing_modal else [])"
      "\<not> truthy JUndefined \<longrightarrow> render (onSave ext0 JUndefined editing_modal) = render editing_modal"
    using onSave_response [of ext0 JUndefined editing_modal] by blast
  obtain c2 where c2: "length c2 \<le> 1"
      "effects (onSave ext0 (JObj []) editing_modal) =
         effects editing_modal @ c2 @
         (if truthy (JObj []) \<and> c2 \<noteq> [] then success_effects ext0 editing_modal else [])"
    using onSave_response [of ext0 "JObj []" editing_modal] by blast
  from calls [OF c1(1) c1(2)] c1 have r1:
    "render (onSave ext0 JUndefined editing_modal) = render editing_modal"
    "effects (onSave ext0 JUndefined editing_modal) =
     [FetchResource 5,
      UpdateResource 5 (annotation0\<lparr>annotation_id := None, created_by := None,
        changed_by := None, changed_on_delta_humanized := None, layer := None\<rparr>)]"
    by (simp_all add: e)
  from calls [OF c2(1) c2(2)] c2 have r2:
    "effects (onSave ext0 (JObj []) editing_modal) =
     [FetchResource 5,
      UpdateResource 5 (annotation0\<lparr>annotation_id := None, created_by := None,
        changed_by := None, changed_on_delta_humanized := None, layer := None\<rparr>),
      OnAnnotationAdd, OnHide, AddSuccessToast ''The annotation has been updated'']"
    by (simp add: e success_effects_def ext0_def)
  from r1 r2 show ?thesis by simp
qed

section \<open>Properties of the polling loop as the specification describes it\<close>

text \<open>
  Claim C3. For a dictionary with distinct keys, \<open>shouldCheckForQueries\<close> is true if
  and only if one of its values is a query that \<open>isQueryRunning\<close> accepts.
\<close>

theorem shouldCheckForQueries_iff:
  assumes "distinct (map fst queries)"
  shows "shouldCheckForQueries queries \<longleftrightarrow> (\<exists>q \<in> ran (map_of queries). isQueryRunning q)"
proof -
  have "ran (map_of queries) = snd ` set queries"
    using assms by (rule ran_distinct)
  then show ?thesis
    by (auto simp: shouldCheckForQueries_def list_ex_iff)
qed

theorem shouldCheckForQueries_iff_witness:
  "distinct (map fst running_queries) \<and> shouldCheckForQueries running_queries \<and>
   distinct (map fst successful_queries) \<and> \<not> shouldCheckForQueries successful_queries"
proof -
  have d: "distinct (map fst running_queries)" "distinct (map fst successful_queries)"
    by (simp_all add: running_queries_def successful_queries_def)
  have "shouldCheckForQueries running_queries"
    using shouldCheckForQueries_iff [OF d(1)]
    by (simp add: running_queries_def isQueryRunning_def ran_def)
  moreover have "\<not> shouldCheckForQueries successful_queries"
    using shouldCheckForQueries_iff [OF d(2)]
    by (auto simp: successful_queries_def isQueryRunning_def ran_def split: if_splits)
  ultimately show ?thesis using d by simp
qed

text \<open>
  Claim C2. In a tick in which no tracked query is running, the loop sends no request,
  whatever the server would answer.
\<close>

theorem tick_idle_no_request:
  assumes "\<not> shouldCheckForQueries queries"
  shows "poll_requests (tick queries answer p) = poll_requests p"
  using assms by (simp add: tick_def)

theorem tick_idle_no_request_witness:
  "\<not> shouldCheckForQueries successful_queries \<and>
   poll_requests
     (tick successful_queries (Some [\<lparr>query_id = ''abcd'', state = Succeeded\<rparr>]) poller0) = []"
proof -
  have h: "\<not> shouldCheckForQueries successful_queries"
    by (simp add: shouldCheckForQueries_def successful_queries_def isQueryRunning_def)
  from tick_idle_no_request
    [OF h, of "Some [\<lparr>query_id = ''abcd'', state = Succeeded\<rparr>]" poller0]
  show ?thesis
    using h by (simp add: poller0_def)
qed

section \<open>The requests of the excerpt\<close>

text \<open>
  Claim C7. The operations of the excerpt call these endpoints and no other.
  The effect of \<open>ExplorePage\<close> sends \<open>GET api/v1/explore/\<close> with the URL parameters
  whenever it fetches at all (the page is not yet initialized, or there is a save
  action), and after it \<open>GET api/v1/chart/{slice_id}\<close>, exactly when the fetch was
  rejected with an error that names a datasource in \<open>extra\<close> and the URL has a
  non-empty \<open>slice_id\<close>; it sends nothing else. Whatever \<open>AnnotationModal\<close> does, a
  request behind it is a GET, POST or PUT of the resource hook on
  \<open>/api/v1/annotation_layer/{annotationLayerId}/annotation\<close>. A tick of the polling
  loop sends \<open>GET /api/v1/query/updated_since\<close> when a query is running and nothing
  otherwise.
\<close>

theorem excerpt_requests:
  "requests (ExplorePage E net inp w) = requests w @
     (if \<not> isExploreInitialized w \<or> truthy (saveAction inp) then
        Request ''GET'' ''api/v1/explore/'' (exploreUrlParams inp) #
        (case fst (fetchExploreData E net (exploreUrlParams inp) w) of
           Fulfilled rv \<Rightarrow> []
         | Rejected err \<Rightarrow>
             if truthy (get (get err ''extra'') ''datasource'') then
               (case map_of (exploreUrlParams inp) ''slice_id'' of
                  None \<Rightarrow> []
                | Some c \<Rightarrow> if c \<noteq> [] then [Request ''GET'' (''api/v1/chart/'' @ c) []] else [])
             else [])
      else []) \<and>
   (\<forall>rq \<in> set (hook_requests (annotation_resource E P) e).
      verb rq \<in> {''GET'', ''POST'', ''PUT''} \<and>
      endpoint rq =
        ''/api/v1/annotation_layer/'' @ to_string E (JNum (annotationLayerId P)) @ ''/annotation'') \<and>
   poll_requests (tick queries answer p) = poll_requests p @
     (if shouldCheckForQueries queries
      then [Request ''GET'' ''/api/v1/query/updated_since'' []] else [])"
proof -
  have explore: "requests (ExplorePage E net inp w) = requests w @
     (if \<not> isExploreInitialized w \<or> truthy (saveAction inp) then
        Request ''GET'' ''api/v1/explore/'' (exploreUrlParams inp) #
        (case fst (fetchExploreData E net (exploreUrlParams inp) w) of
           Fulfilled rv \<Rightarrow> []
         | Rejected err \<Rightarrow>
             if truthy (get (get err ''extra'') ''datasource'') then
               (case map_of (exploreUrlParams inp) ''slice_id'' of
                  None \<Rightarrow> []
                | Some c \<Rightarrow> if c \<noteq> [] then [Request ''GET'' (''api/v1/chart/'' @ c) []] else [])
             else [])
      else [])"
  proof (cases "fst (fetchExploreData E net (exploreUrlParams inp) w)")
    case (Fulfilled rv)
    then show ?thesis
      by (simp add: ExplorePage_request_list explore_request_def)
  next
    case (Rejected err)
    then have "truthy err" by (rule fetch_rejected_truthy)
    with Rejected show ?thesis
      by (simp add: ExplorePage_request_list explore_request_def chart_requests_def
            chart_request_def split: option.splits)
  qed
  have modal: "\<forall>rq \<in> set (hook_requests (annotation_resource E P) e).
      verb rq \<in> {''GET'', ''POST'', ''PUT''} \<and>
      endpoint rq =
        ''/api/v1/annotation_layer/'' @ to_string E (JNum (annotationLayerId P)) @ ''/annotation''"
    by (cases e) (simp_all add: hook_requests_def annotation_resource_def)
  have poll: "poll_requests (tick queries answer p) = poll_requests p @
     (if shouldCheckForQueries queries
      then [Request ''GET'' ''/api/v1/query/updated_since'' []] else [])"
    by (simp add: tick_def refresh_request_def)
  from explore modal poll show ?thesis by blast
qed

theorem excerpt_requests_witness:
  "requests (ExplorePage ext0 net_missing_datasource input0 world0) =
     [Request ''GET'' ''api/v1/explore/'' [(''slice_id'', ''42'')],
      Request ''GET'' ''api/v1/chart/42'' []] \<and>
   hook_requests (annotation_resource ext0 add_props) (CreateResource annotation0) =
     [Request ''POST'' (''/api/v1/annotation_layer/'' @ show_string (JNum 3) @ ''/annotation'') []] \<and>
   poll_requests (tick running_queries None poller0) =
     [Request ''GET'' ''/api/v1/query/updated_since'' []]"
proof -
  have f1: "fst (fetchExploreData ext0 net_missing_datasource (exploreUrlParams input0) world0) =
     Rejected error_missing_datasource"
    by (simp add: fetchExploreData_eq net_missing_datasource_def explore_request_def
          error_missing_datasource_def)
  have run: "shouldCheckForQueries running_queries"
    by (simp add: shouldCheckForQueries_def running_queries_def isQueryRunning_def)
  note t = excerpt_requests
    [where E = ext0 and net = net_missing_datasource and inp = input0 and w = world0
       and P = add_props and e = "CreateResource annotation0"
       and queries = running_queries and answer = None and p = poller0, unfolded f1]
  from t have "requests (ExplorePage ext0 net_missing_datasource input0 world0) =
     [Request ''GET'' ''api/v1/explore/'' [(''slice_id'', ''42'')],
      Request ''GET'' ''api/v1/chart/42'' []]"
    by (simp add: world0_def input0_def error_missing_datasource_def missing_datasource_def)
  moreover from t run have "poll_requests (tick running_queries None poller0) =
     [Request ''GET'' ''/api/v1/query/updated_since'' []]"
    by (simp add: poller0_def)
  moreover have "hook_requests (annotation_resource ext0 add_props) (CreateResource annotation0) =
     [Request ''POST'' (''/api/v1/annotation_layer/'' @ show_string (JNum 3) @ ''/annotation'') []]"
    by (simp add: hook_requests_def annotation_resource_def ext0_def add_props_def)
  ultimately show ?thesis by simp
qed

end
